theory Spec2Isabelle
  imports Main "HOL-Library.Word" "HOL-Library.Option_ord"
begin

section \<open>Values, objects and files\<close>

text \<open>
  The field values the application stores in and reads from a document: strings, the
  byte count (a non-negative integer), a timestamp the server assigned, the sentinel
  \<^verbatim>\<open>serverTimestamp()\<close> of a write, and \<^verbatim>\<open>null\<close>.
\<close>

datatype jsvalue =
    VString string
  | VNumber nat
  | VTimestamp nat
  | VServerTimestamp
  | VNull

text \<open>A plain object is a finite map from property names to values; a missing
  property reads as \<^verbatim>\<open>undefined\<close>, here \<open>None\<close>.\<close>

type_synonym jsobject = "string \<rightharpoonup> jsvalue"

text \<open>The browser's \<^verbatim>\<open>File\<close>: the properties the handlers read
  (\<^verbatim>\<open>name\<close>, \<^verbatim>\<open>type\<close>, \<^verbatim>\<open>size\<close>) and its content.\<close>

record js_file =
  file_name :: string
  file_type :: string
  file_size :: nat
  file_bytes :: "8 word list"

text \<open>A document of a snapshot: \<^verbatim>\<open>doc.id\<close> and \<^verbatim>\<open>doc.data()\<close>.\<close>

record snapshot_doc =
  doc_id :: string
  doc_data :: jsobject

section \<open>State and effects\<close>

record toast =
  toast_message :: string
  toast_type :: string

text \<open>The component's state: one field for each \<^verbatim>\<open>useState\<close> of \<^verbatim>\<open>App\<close>.\<close>

record app_state =
  user :: "string option"
  files :: "jsobject list"
  isAdmin :: bool
  showLoginModal :: bool
  pinInput :: string
  uploading :: bool
  toast :: "toast option"

text \<open>Every call a handler makes out of the component is recorded, in order, as an
  effect. Paths are the segments given to \<^verbatim>\<open>collection\<close> and \<^verbatim>\<open>doc\<close>.\<close>

datatype effect =
    SetTimeout nat
  | ConsoleError string string
  | PreventDefault
  | ReadAsDataURL js_file
  | AddDoc "string list" jsobject
  | DeleteDoc "string list"
  | WindowConfirm string
  | ClearFileInput
  | AnchorClick "jsvalue option" "jsvalue option"
  | OnSnapshot "string list" string string

definition initial_state :: app_state where
  "initial_state =
     \<lparr>user = None, files = [], isAdmin = False, showLoginModal = False,
      pinInput = [], uploading = False, toast = None\<rparr>"

definition ADMIN_PIN :: string where
  "ADMIN_PIN = ''432272''"

definition files_collection :: "string \<Rightarrow> string list" where
  "files_collection appId = [''artifacts'', appId, ''public'', ''data'', ''files'']"

section \<open>Helper functions\<close>

text \<open>\<^verbatim>\<open>showToast\<close> sets the toast and starts the 3000 ms timer; the timer's callback
  is \<open>toast_timeout\<close>.\<close>

definition showToast :: "string \<Rightarrow> string \<Rightarrow> app_state \<Rightarrow> app_state \<times> effect list" where
  "showToast message type s =
     (s\<lparr>toast := Some \<lparr>toast_message = message, toast_type = type\<rparr>\<rparr>, [SetTimeout 3000])"

definition toast_timeout :: "app_state \<Rightarrow> app_state \<times> effect list" where
  "toast_timeout s = (s\<lparr>toast := None\<rparr>, [])"

text \<open>Effects issued before a step are put in front of the step's own.\<close>

definition after :: "effect list \<Rightarrow> app_state \<times> effect list \<Rightarrow> app_state \<times> effect list" where
  "after es r = (fst r, es @ snd r)"

section \<open>Admin gate\<close>

definition handleAdminLogin :: "app_state \<Rightarrow> app_state \<times> effect list" where
  "handleAdminLogin s =
     after [PreventDefault]
       (if pinInput s = ADMIN_PIN
        then showToast ''Welcome Admin! Access Granted.'' ''success''
               (s\<lparr>isAdmin := True, showLoginModal := False, pinInput := []\<rparr>)
        else showToast ''Incorrect PIN. Access Denied.'' ''error'' s)"

definition handleLogout :: "app_state \<Rightarrow> app_state \<times> effect list" where
  "handleLogout s = showToast ''Logged out of Admin Panel'' ''success'' (s\<lparr>isAdmin := False\<rparr>)"

section \<open>Upload\<close>

text \<open>
  \<^verbatim>\<open>handleFileUpload\<close> up to the point where it hands the file to the reader. The
  argument is \<^verbatim>\<open>e.target.files\<close>; its first element is the selected file.
\<close>

definition handleFileUpload :: "js_file list \<Rightarrow> app_state \<Rightarrow> app_state \<times> effect list" where
  "handleFileUpload selection s =
     (case selection of
        [] \<Rightarrow> (s, [])
      | f # _ \<Rightarrow>
          if file_size f > 700000
          then showToast ''File too large! Max 700KB for this demo.'' ''error'' s
          else (s\<lparr>uploading := True\<rparr>, [ReadAsDataURL f]))"

text \<open>The object literal given to \<^verbatim>\<open>addDoc\<close>; \<open>result\<close> is \<^verbatim>\<open>event.target.result\<close>.\<close>

definition upload_record :: "js_file \<Rightarrow> string \<Rightarrow> jsobject" where
  "upload_record f result =
     [''name'' \<mapsto> VString (file_name f),
      ''type'' \<mapsto> VString (file_type f),
      ''size'' \<mapsto> VNumber (file_size f),
      ''data'' \<mapsto> VString result,
      ''createdAt'' \<mapsto> VServerTimestamp]"

text \<open>\<^verbatim>\<open>reader.onload\<close> up to its \<^verbatim>\<open>await\<close>: the call of \<^verbatim>\<open>addDoc\<close>.\<close>

definition reader_onload :: "string \<Rightarrow> js_file \<Rightarrow> string \<Rightarrow> app_state \<Rightarrow> app_state \<times> effect list" where
  "reader_onload appId f result s = (s, [AddDoc (files_collection appId) (upload_record f result)])"

text \<open>
  \<^verbatim>\<open>reader.onload\<close> after the \<^verbatim>\<open>await\<close>. The promise of \<^verbatim>\<open>addDoc\<close> is fulfilled
  (\<open>Inr\<close>) or rejected with an error (\<open>Inl\<close>); \<open>mounted\<close> tells whether
  \<^verbatim>\<open>fileInputRef.current\<close> is set. The \<^verbatim>\<open>finally\<close> block runs on both paths.
\<close>

definition reader_onload_settled ::
  "string + unit \<Rightarrow> bool \<Rightarrow> app_state \<Rightarrow> app_state \<times> effect list" where
  "reader_onload_settled outcome mounted s =
     (case outcome of
        Inr _ \<Rightarrow>
          (let (s1, es) = showToast ''File uploaded successfully!'' ''success'' s
           in (s1\<lparr>uploading := False\<rparr>, es @ (if mounted then [ClearFileInput] else [])))
      | Inl err \<Rightarrow>
          (let (s1, es) = showToast ''Upload failed.'' ''error'' s
           in (s1\<lparr>uploading := False\<rparr>, ConsoleError ''Upload error'' err # es)))"

section \<open>Delete\<close>

text \<open>
  \<^verbatim>\<open>handleDelete\<close> up to its \<^verbatim>\<open>await\<close>; \<open>confirmed\<close> is what
  \<^verbatim>\<open>window.confirm\<close> returns. Inside the \<^verbatim>\<open>try\<close> the document reference is built
  first: \<open>doc\<close> is the client library's \<^verbatim>\<open>doc\<close>, given the path segments; it
  returns a reference (\<open>Inr\<close>) or throws (\<open>Inl\<close>), as it does for segments that do not
  name a document. A throw goes to the \<^verbatim>\<open>catch\<close> block and \<^verbatim>\<open>deleteDoc\<close> is not
  called.
\<close>

definition handleDelete ::
  "(string list \<Rightarrow> string + string list) \<Rightarrow> string \<Rightarrow> string \<Rightarrow> bool \<Rightarrow>
   app_state \<Rightarrow> app_state \<times> effect list" where
  "handleDelete doc appId fileId confirmed s =
     after [WindowConfirm ''Are you sure you want to delete this file?'']
       (if \<not> confirmed then (s, [])
        else case doc (files_collection appId @ [fileId]) of
               Inl err \<Rightarrow> showToast ''Could not delete file.'' ''error'' s
             | Inr ref \<Rightarrow> (s, [DeleteDoc ref]))"

text \<open>\<^verbatim>\<open>handleDelete\<close> after the \<^verbatim>\<open>await\<close> of \<^verbatim>\<open>deleteDoc\<close>: the promise is
  fulfilled (\<open>Inr\<close>) or rejected (\<open>Inl\<close>).\<close>

definition handleDelete_settled :: "string + unit \<Rightarrow> app_state \<Rightarrow> app_state \<times> effect list" where
  "handleDelete_settled outcome s =
     (case outcome of
        Inr _ \<Rightarrow> showToast ''File removed.'' ''success'' s
      | Inl err \<Rightarrow> showToast ''Could not delete file.'' ''error'' s)"

section \<open>Live subscription\<close>

text \<open>The callback's element function: \<^verbatim>\<open>{ id: doc.id, ...doc.data() }\<close>. The spread
  comes second, so a property of the data wins over \<^verbatim>\<open>id\<close>.\<close>

definition file_of_doc :: "snapshot_doc \<Rightarrow> jsobject" where
  "file_of_doc d = [''id'' \<mapsto> VString (doc_id d)] ++ doc_data d"

definition onSnapshot_next :: "snapshot_doc list \<Rightarrow> app_state \<Rightarrow> app_state \<times> effect list" where
  "onSnapshot_next docs s = (s\<lparr>files := map file_of_doc docs\<rparr>, [])"

definition onSnapshot_error :: "string \<Rightarrow> app_state \<Rightarrow> app_state \<times> effect list" where
  "onSnapshot_error err s =
     after [ConsoleError ''Error fetching files:'' err] (showToast ''Error loading files'' ''error'' s)"

text \<open>The data-fetching effect, run when \<^verbatim>\<open>user\<close> changes: no user, no subscription.\<close>

definition subscribe :: "string \<Rightarrow> app_state \<Rightarrow> effect list" where
  "subscribe appId s =
     (case user s of
        None \<Rightarrow> []
      | Some _ \<Rightarrow> [OnSnapshot (files_collection appId) ''createdAt'' ''desc''])"

definition onAuthStateChanged :: "string option \<Rightarrow> app_state \<Rightarrow> app_state \<times> effect list" where
  "onAuthStateChanged currentUser s = (s\<lparr>user := currentUser\<rparr>, [])"

section \<open>Download\<close>

text \<open>String conversion of a template literal, for the values a record can hold.\<close>

function decimal :: "nat \<Rightarrow> string" where
  "decimal n =
     (if n < 10 then [char_of (48 + n)] else decimal (n div 10) @ [char_of (48 + n mod 10)])"
  by pat_completeness auto
termination
  by (relation "measure id") auto

fun js_to_string :: "jsvalue option \<Rightarrow> string" where
  "js_to_string None = ''undefined''"
| "js_to_string (Some (VString t)) = t"
| "js_to_string (Some (VNumber n)) = decimal n"
| "js_to_string (Some (VTimestamp t)) =
     ''Timestamp(seconds='' @ decimal (t div 1000000000) @
     '', nanoseconds='' @ decimal (t mod 1000000000) @ '')''"
| "js_to_string (Some VServerTimestamp) = ''[object Object]''"
| "js_to_string (Some VNull) = ''null''"

text \<open>\<^verbatim>\<open>handleDownload\<close>: the anchor gets \<^verbatim>\<open>file.data\<close> as its address and
  \<^verbatim>\<open>file.name\<close> as its download name, and is clicked.\<close>

definition handleDownload :: "jsobject \<Rightarrow> app_state \<Rightarrow> app_state \<times> effect list" where
  "handleDownload f s =
     after [AnchorClick (f ''data'') (f ''name'')]
       (showToast (''Downloading '' @ js_to_string (f ''name'') @ ''...'') ''success'' s)"

section \<open>The component as a transition system\<close>

text \<open>
  Everything that can run inside the component: the callbacks it registers, the
  handlers it binds (the header button logs out when the session is an admin's and
  opens the login dialog otherwise) and their continuations after an \<^verbatim>\<open>await\<close>.
  Each runs to completion before the next one starts. An event is taken in any state,
  also where the page does not show its control.
\<close>

datatype event =
    AuthStateChanged "string option"
  | SnapshotNext "snapshot_doc list"
  | SnapshotError string
  | ToastTimeout
  | AdminButtonClick
  | CloseLoginModal
  | PinInputChange string
  | AdminLoginSubmit
  | FileInputChange "js_file list"
  | ReaderLoad js_file string
  | AddDocSettled "string + unit" bool
  | DeleteClick string bool
  | DeleteDocSettled "string + unit"
  | DownloadClick jsobject

fun dispatch ::
  "(string list \<Rightarrow> string + string list) \<Rightarrow> string \<Rightarrow> event \<Rightarrow> app_state \<Rightarrow>
   app_state \<times> effect list" where
  "dispatch doc appId (AuthStateChanged u) s = onAuthStateChanged u s"
| "dispatch doc appId (SnapshotNext docs) s = onSnapshot_next docs s"
| "dispatch doc appId (SnapshotError err) s = onSnapshot_error err s"
| "dispatch doc appId ToastTimeout s = toast_timeout s"
| "dispatch doc appId AdminButtonClick s =
     (if isAdmin s then handleLogout s else (s\<lparr>showLoginModal := True\<rparr>, []))"
| "dispatch doc appId CloseLoginModal s = (s\<lparr>showLoginModal := False, pinInput := []\<rparr>, [])"
| "dispatch doc appId (PinInputChange v) s = (s\<lparr>pinInput := v\<rparr>, [])"
| "dispatch doc appId AdminLoginSubmit s = handleAdminLogin s"
| "dispatch doc appId (FileInputChange selection) s = handleFileUpload selection s"
| "dispatch doc appId (ReaderLoad f result) s = reader_onload appId f result s"
| "dispatch doc appId (AddDocSettled outcome mounted) s = reader_onload_settled outcome mounted s"
| "dispatch doc appId (DeleteClick fileId confirmed) s = handleDelete doc appId fileId confirmed s"
| "dispatch doc appId (DeleteDocSettled outcome) s = handleDelete_settled outcome s"
| "dispatch doc appId (DownloadClick f) s = handleDownload f s"

text \<open>
  One upload from the selection to the end of \<^verbatim>\<open>reader.onload\<close>, with nothing else
  in between. The reader is started only by \<^verbatim>\<open>handleFileUpload\<close>, and \<^verbatim>\<open>addDoc\<close>
  is called only from the reader's callback. \<open>readAsDataURL\<close> is the text the reader
  produces for a file and \<open>addDoc\<close> is how the promise of the write settles.
\<close>

definition upload_run ::
  "string \<Rightarrow> (js_file \<Rightarrow> string) \<Rightarrow> (jsobject \<Rightarrow> string + unit) \<Rightarrow> bool \<Rightarrow>
   js_file list \<Rightarrow> app_state \<Rightarrow> app_state \<times> effect list" where
  "upload_run appId readAsDataURL addDoc mounted selection s =
     (let (s1, es1) = handleFileUpload selection s
      in case es1 of
           [ReadAsDataURL f] \<Rightarrow>
             (let (s2, es2) = reader_onload appId f (readAsDataURL f) s1;
                  (s3, es3) =
                    reader_onload_settled (addDoc (upload_record f (readAsDataURL f))) mounted s2
              in (s3, es1 @ es2 @ es3))
         | _ \<Rightarrow> (s1, es1))"

text \<open>One delete from the click to the end of \<^verbatim>\<open>handleDelete\<close>; \<open>deleteDoc\<close> is how
  the promise of the delete settles. It is awaited only when the delete was submitted.\<close>

definition delete_run ::
  "(string list \<Rightarrow> string + string list) \<Rightarrow> string \<Rightarrow> (string list \<Rightarrow> string + unit) \<Rightarrow>
   string \<Rightarrow> bool \<Rightarrow> app_state \<Rightarrow> app_state \<times> effect list" where
  "delete_run doc appId deleteDoc fileId confirmed s =
     (let (s1, es1) = handleDelete doc appId fileId confirmed s
      in case es1 of
           [WindowConfirm _, DeleteDoc ref] \<Rightarrow>
             (let (s2, es2) = handleDelete_settled (deleteDoc ref) s1 in (s2, es1 @ es2))
         | _ \<Rightarrow> (s1, es1))"

text \<open>The two states of the admin session.\<close>

datatype admin_session = Guest | Admin

definition session :: "app_state \<Rightarrow> admin_session" where
  "session s = (if isAdmin s then Admin else Guest)"

section \<open>The remote registry and the codec\<close>

text \<open>
  Modelled from the spec: the remote registry is an external document store, not part
  of the source. The spec gives it a named record collection, a create operation that
  assigns a generated id and a server timestamp, a delete operation by id, and a live
  query that delivers the full record set sorted by a timestamp field. The store maps
  the path of a collection to its documents.
\<close>

type_synonym registry = "string list \<Rightarrow> snapshot_doc list"

text \<open>Modelled from the spec: the server replaces the timestamp sentinel of a write
  by its own time.\<close>

definition assign_timestamp :: "nat \<Rightarrow> jsobject \<Rightarrow> jsobject" where
  "assign_timestamp now w =
     (\<lambda>k. case w k of Some VServerTimestamp \<Rightarrow> Some (VTimestamp now) | v \<Rightarrow> v)"

text \<open>Modelled from the spec: the document a create stores for a write, under the
  generated id \<open>newId\<close> at server time \<open>now\<close>.\<close>

definition created_doc :: "string \<Rightarrow> nat \<Rightarrow> jsobject \<Rightarrow> snapshot_doc" where
  "created_doc newId now w = \<lparr>doc_id = newId, doc_data = assign_timestamp now w\<rparr>"

text \<open>Modelled from the spec: what the registry does with a call of the component.
  A create appends the created document to its collection; a delete removes the
  document whose id is the last segment of the path; no other call changes the store.\<close>

definition registry_apply :: "string \<Rightarrow> nat \<Rightarrow> effect \<Rightarrow> registry \<Rightarrow> registry" where
  "registry_apply newId now e reg =
     (case e of
        AddDoc path w \<Rightarrow> reg(path := reg path @ [created_doc newId now w])
      | DeleteDoc path \<Rightarrow>
          (if path = [] then reg
           else reg(butlast path := filter (\<lambda>d. doc_id d \<noteq> last path) (reg (butlast path))))
      | _ \<Rightarrow> reg)"

text \<open>Modelled from the spec: the timestamp a document carries in a field, if any.\<close>

definition field_timestamp :: "string \<Rightarrow> snapshot_doc \<Rightarrow> nat option" where
  "field_timestamp field d =
     (case doc_data d field of Some (VTimestamp t) \<Rightarrow> Some t | _ \<Rightarrow> None)"

text \<open>Modelled from the spec: the snapshot the registry delivers to a subscription,
  the whole collection sorted by the field in the direction the query asks for.\<close>

definition deliver :: "effect \<Rightarrow> registry \<Rightarrow> snapshot_doc list" where
  "deliver e reg =
     (case e of
        OnSnapshot path field direction \<Rightarrow>
          (if direction = ''desc'' then rev (sort_key (field_timestamp field) (reg path))
           else sort_key (field_timestamp field) (reg path))
      | _ \<Rightarrow> [])"

text \<open>The timestamp of a cached record, and the order the spec gives to snapshots.\<close>

definition createdAt :: "jsobject \<Rightarrow> nat option" where
  "createdAt r = (case r ''createdAt'' of Some (VTimestamp t) \<Rightarrow> Some t | _ \<Rightarrow> None)"

definition descending :: "('a \<Rightarrow> nat option) \<Rightarrow> 'a list \<Rightarrow> bool" where
  "descending key xs = sorted_wrt (\<lambda>a b. key b \<le> key a) xs"

text \<open>
  Modelled from the spec: the codec (Encode at upload, Decode at download) is the
  browser's and not part of the source: the upload calls \<^verbatim>\<open>readAsDataURL\<close> and the
  download follows the stored text as an address. The source names that text a Base64
  data URL (\<^verbatim>\<open>base64String\<close>, "Base64 overhead"), so the codec is written as that
  format. Base64 first: three bytes become four characters of the alphabet, with padding
  at the end.
\<close>

definition base64_alphabet :: string where
  "base64_alphabet = ''ABCDEFGHIJKLMNOPQRSTUVWXYZabcdefghijklmnopqrstuvwxyz0123456789+/''"

text \<open>Modelled from the spec: the character of a six-bit value, and the value of a
  character of the alphabet.\<close>

definition sextet_char :: "nat \<Rightarrow> char" where
  "sextet_char n = base64_alphabet ! n"

fun index_of :: "'a \<Rightarrow> 'a list \<Rightarrow> nat option" where
  "index_of x [] = None"
| "index_of x (y # ys) = (if x = y then Some 0 else map_option Suc (index_of x ys))"

definition char_sextet :: "char \<Rightarrow> nat option" where
  "char_sextet c = index_of c base64_alphabet"

text \<open>Modelled from the spec: the Base64 text of a byte sequence.\<close>

fun base64_encode :: "8 word list \<Rightarrow> string" where
  "base64_encode (a # b # c # rest) =
     [sextet_char (unat a div 4),
      sextet_char (unat a mod 4 * 16 + unat b div 16),
      sextet_char (unat b mod 16 * 4 + unat c div 64),
      sextet_char (unat c mod 64)] @ base64_encode rest"
| "base64_encode [a, b] =
     [sextet_char (unat a div 4),
      sextet_char (unat a mod 4 * 16 + unat b div 16),
      sextet_char (unat b mod 16 * 4),
      CHR ''='']"
| "base64_encode [a] =
     [sextet_char (unat a div 4), sextet_char (unat a mod 4 * 16), CHR ''='', CHR ''='']"
| "base64_encode [] = []"

text \<open>Modelled from the spec: four characters back to bytes; padding shortens the
  result, and is accepted only in the last four characters of a text.\<close>

definition decode_quad :: "char \<Rightarrow> char \<Rightarrow> char \<Rightarrow> char \<Rightarrow> 8 word list option" where
  "decode_quad p q r t =
     (case (char_sextet p, char_sextet q) of
        (Some i, Some j) \<Rightarrow>
          (if r = CHR ''='' \<and> t = CHR ''='' then Some [of_nat (i * 4 + j div 16)]
           else case char_sextet r of
                  None \<Rightarrow> None
                | Some k \<Rightarrow>
                    (if t = CHR ''=''
                     then Some [of_nat (i * 4 + j div 16), of_nat (j mod 16 * 16 + k div 4)]
                     else case char_sextet t of
                            None \<Rightarrow> None
                          | Some l \<Rightarrow>
                              Some [of_nat (i * 4 + j div 16),
                                    of_nat (j mod 16 * 16 + k div 4),
                                    of_nat (k mod 4 * 64 + l)]))
      | _ \<Rightarrow> None)"

text \<open>Modelled from the spec: the bytes of a Base64 text, if it is one.\<close>

fun base64_decode :: "string \<Rightarrow> 8 word list option" where
  "base64_decode [] = Some []"
| "base64_decode (p # q # r # t # rest) =
     (case decode_quad p q r t of
        None \<Rightarrow> None
      | Some bs \<Rightarrow>
          (if rest = [] then Some bs
           else if length bs = 3 then map_option ((@) bs) (base64_decode rest)
           else None))"
| "base64_decode cs = None"

text \<open>Modelled from the spec: Encode, the text the reader produces for a file: the scheme,
  the file's type, the Base64 marker and the Base64 text of the bytes.\<close>

definition encode_data_url :: "js_file \<Rightarrow> string" where
  "encode_data_url f = ''data:'' @ file_type f @ '';base64,'' @ base64_encode (file_bytes f)"

text \<open>Modelled from the spec: Decode, the bytes behind a data address in the form the
  reader produces: the part before the first comma must end in the Base64 marker, the
  part after it is decoded. Other texts are refused.\<close>

definition decode_data_url :: "string \<Rightarrow> 8 word list option" where
  "decode_data_url url =
     (let rest = drop 5 url; header = takeWhile (\<lambda>c. c \<noteq> CHR '','') rest
      in if take 5 url = ''data:'' \<and> header \<noteq> rest
            \<and> drop (length header - 7) header = '';base64''
         then base64_decode (drop (Suc (length header)) rest)
         else None)"

text \<open>Modelled from the spec: what a download recovers from a cached record. The
  download hands \<^verbatim>\<open>file.data\<close> to the browser as the address; these are the bytes
  behind it.\<close>

definition decoded_payload :: "jsobject \<Rightarrow> 8 word list option" where
  "decoded_payload r =
     (case r ''data'' of Some (VString p) \<Rightarrow> decode_data_url p | _ \<Rightarrow> None)"



section \<open>Example inputs\<close>

definition example_file :: "nat \<Rightarrow> js_file" where
  "example_file n =
     \<lparr>file_name = ''a.bin'', file_type = ''application/octet-stream'',
      file_size = n, file_bytes = replicate n 0\<rparr>"

definition hello_file :: js_file where
  "hello_file =
     \<lparr>file_name = ''a.txt'', file_type = ''text/plain'', file_size = 5,
      file_bytes = [104, 101, 108, 108, 111]\<rparr>"

text \<open>
  The client library's \<^verbatim>\<open>doc\<close> for the examples: every argument is split at its
  slashes and the empty parts are dropped; the call throws when an argument has two
  slashes in a row or when the number of parts is odd, since a document lies at an even
  depth.
\<close>

fun split_slash :: "string \<Rightarrow> string list" where
  "split_slash [] = [[]]"
| "split_slash (c # cs) =
     (if c = CHR ''/'' then [] # split_slash cs
      else (case split_slash cs of [] \<Rightarrow> [[c]] | p # ps \<Rightarrow> (c # p) # ps))"

fun double_slash :: "string \<Rightarrow> bool" where
  "double_slash (a # b # cs) = ((a = CHR ''/'' \<and> b = CHR ''/'') \<or> double_slash (b # cs))"
| "double_slash cs = False"

definition firestore_doc :: "string list \<Rightarrow> string + string list" where
  "firestore_doc segments =
     (if list_ex double_slash segments then Inl ''invalid-argument''
      else if odd (length (filter (\<lambda>p. p \<noteq> []) (concat (map split_slash segments))))
      then Inl ''invalid-argument''
      else Inr (filter (\<lambda>p. p \<noteq> []) (concat (map split_slash segments))))"

definition empty_registry :: registry where
  "empty_registry = (\<lambda>path. [])"

definition hello_url :: string where
  "hello_url = ''data:text/plain;base64,aGVsbG8=''"

definition example_registry :: "string \<Rightarrow> registry" where
  "example_registry appId =
     registry_apply ''doc0'' 1
       (AddDoc (files_collection appId) (upload_record (example_file 3) ''data:;base64,AAAA''))
       empty_registry"

section \<open>Frame lemmas\<close>

lemma example_file_size: "file_size (example_file n) = n"
  by (simp add: example_file_def)

lemma handleFileUpload_files: "files (fst (handleFileUpload selection s)) = files s"
  by (simp add: handleFileUpload_def showToast_def split: list.splits)

lemma reader_onload_settled_files:
  "files (fst (reader_onload_settled outcome mounted s)) = files s"
  by (simp add: reader_onload_settled_def showToast_def split: sum.splits)

lemma handleDelete_settled_files: "files (fst (handleDelete_settled outcome s)) = files s"
  by (simp add: handleDelete_settled_def showToast_def split: sum.splits)

lemma upload_run_files:
  "files (fst (upload_run appId readAsDataURL addDoc mounted selection s)) = files s"
  by (simp add: upload_run_def handleFileUpload_def reader_onload_def reader_onload_settled_def
      showToast_def split: list.splits sum.splits)

lemma handleDelete_files:
  "files (fst (handleDelete doc appId fileId confirmed s)) = files s"
  by (simp add: handleDelete_def after_def showToast_def split: sum.splits)

lemma handleDelete_effects:
  "snd (handleDelete doc appId fileId confirmed s) =
     WindowConfirm ''Are you sure you want to delete this file?'' #
     (if \<not> confirmed then []
      else case doc (files_collection appId @ [fileId]) of
             Inl err \<Rightarrow> [SetTimeout 3000]
           | Inr ref \<Rightarrow> [DeleteDoc ref])"
  by (simp add: handleDelete_def after_def showToast_def split: sum.splits)

lemma delete_run_files:
  "files (fst (delete_run doc appId deleteDoc fileId confirmed s)) = files s"
  by (simp add: delete_run_def handleDelete_def after_def handleDelete_settled_def
      showToast_def split: list.splits sum.splits effect.splits prod.splits)

lemma handleAdminLogin_files: "files (fst (handleAdminLogin s)) = files s"
  by (simp add: handleAdminLogin_def after_def showToast_def)

lemma handleLogout_files: "files (fst (handleLogout s)) = files s"
  by (simp add: handleLogout_def showToast_def)

lemma admin_button_files:
  "files (fst (if isAdmin s then handleLogout s else (s\<lparr>showLoginModal := True\<rparr>, [])))
     = files s"
  by (simp add: handleLogout_files)

lemma dispatch_files:
  "files (fst (dispatch doc appId ev s)) \<noteq> files s \<Longrightarrow> \<exists>docs. ev = SnapshotNext docs"
  by (cases ev)
    (simp_all add: onAuthStateChanged_def onSnapshot_error_def toast_timeout_def
      handleAdminLogin_files admin_button_files handleFileUpload_files reader_onload_def
      reader_onload_settled_files handleDelete_files handleDelete_settled_files
      handleDownload_def after_def showToast_def)

section \<open>Lemmas on the registry and the snapshot callback\<close>

lemma descending_rev_sort_key: "descending key (rev (sort_key key xs))"
  unfolding descending_def sorted_wrt_rev
  using sorted_sort_key [of key xs] by (simp only: sorted_map)

lemma createdAt_file_of_doc: "createdAt (file_of_doc d) = field_timestamp ''createdAt'' d"
  by (simp add: createdAt_def file_of_doc_def field_timestamp_def map_add_def
      split: option.splits)

lemma descending_file_of_doc:
  "descending createdAt (map file_of_doc docs) = descending (field_timestamp ''createdAt'') docs"
  by (simp add: descending_def sorted_wrt_map createdAt_file_of_doc)

lemma insort_key_before_greatest:
  "key x < key d \<Longrightarrow> insort_key key x (ys @ [d]) = insort_key key x ys @ [d]"
  by (induction ys) (simp_all add: less_imp_le)

lemma sort_key_greatest_last:
  "\<forall>x \<in> set xs. key x < key d \<Longrightarrow> sort_key key (xs @ [d]) = sort_key key xs @ [d]"
proof (induction xs)
  case Nil
  then show ?case by simp
next
  case (Cons x xs)
  then have "sort_key key (xs @ [d]) = sort_key key xs @ [d]" and "key x < key d"
    by simp_all
  then show ?case
    by (simp add: insort_key_before_greatest)
qed

lemma subscribe_query:
  "sub \<in> set (subscribe appId s) \<Longrightarrow>
   sub = OnSnapshot (files_collection appId) ''createdAt'' ''desc''"
  by (simp add: subscribe_def split: option.splits)

lemma deliver_desc:
  "deliver (OnSnapshot path field ''desc'') reg = rev (sort_key (field_timestamp field) (reg path))"
  by (simp add: deliver_def)

lemma registry_apply_AddDoc:
  "registry_apply newId now (AddDoc path w) reg path = reg path @ [created_doc newId now w]"
  by (simp add: registry_apply_def)

lemma upload_record_fields:
  "upload_record f result ''name'' = Some (VString (file_name f))"
  "upload_record f result ''type'' = Some (VString (file_type f))"
  "upload_record f result ''size'' = Some (VNumber (file_size f))"
  "upload_record f result ''data'' = Some (VString result)"
  "upload_record f result ''createdAt'' = Some VServerTimestamp"
  "upload_record f result ''id'' = None"
  by (simp_all add: upload_record_def)

lemma created_upload_fields:
  "file_of_doc (created_doc newId now (upload_record f result)) ''id'' = Some (VString newId)"
  "file_of_doc (created_doc newId now (upload_record f result)) ''name'' = Some (VString (file_name f))"
  "file_of_doc (created_doc newId now (upload_record f result)) ''type'' = Some (VString (file_type f))"
  "file_of_doc (created_doc newId now (upload_record f result)) ''size'' = Some (VNumber (file_size f))"
  "file_of_doc (created_doc newId now (upload_record f result)) ''data'' = Some (VString result)"
  "file_of_doc (created_doc newId now (upload_record f result)) ''createdAt'' = Some (VTimestamp now)"
  by (simp_all add: file_of_doc_def created_doc_def assign_timestamp_def upload_record_fields
      map_add_def)

lemma field_timestamp_created_upload:
  "field_timestamp ''createdAt'' (created_doc newId now (upload_record f result)) = Some now"
  by (simp add: field_timestamp_def created_doc_def assign_timestamp_def upload_record_fields)



lemma deliver_after_latest_create:
  assumes "\<forall>d \<in> set (reg path). field_timestamp field d < field_timestamp field (created_doc newId now w)"
  shows "deliver (OnSnapshot path field ''desc'') (registry_apply newId now (AddDoc path w) reg)
           = created_doc newId now w # deliver (OnSnapshot path field ''desc'') reg"
  using sort_key_greatest_last [OF assms]
  by (simp add: deliver_desc registry_apply_AddDoc)



lemma example_registry_files:
  "example_registry appId (files_collection appId)
     = [created_doc ''doc0'' 1 (upload_record (example_file 3) ''data:;base64,AAAA'')]"
  by (simp add: example_registry_def registry_apply_AddDoc empty_registry_def)

lemma subscribe_signed_in:
  "subscribe appId (initial_state\<lparr>user := Some u\<rparr>)
     = [OnSnapshot (files_collection appId) ''createdAt'' ''desc'']"
  by (simp add: subscribe_def)


lemma decoded_payload_created:
  "decoded_payload (file_of_doc (created_doc newId now (upload_record f result)))
     = decode_data_url result"
  by (simp add: decoded_payload_def created_upload_fields)





section \<open>Lemmas on the codec\<close>

lemma index_of_nth: "distinct xs \<Longrightarrow> n < length xs \<Longrightarrow> index_of (xs ! n) xs = Some n"
proof (induction xs arbitrary: n)
  case Nil
  then show ?case by simp
next
  case (Cons y ys)
  show ?case
  proof (cases n)
    case 0
    then show ?thesis by simp
  next
    case (Suc m)
    with Cons.prems have m: "m < length ys" and "y \<notin> set ys" and "distinct ys"
      by simp_all
    then have "ys ! m \<noteq> y"
      by (metis nth_mem)
    with Cons.IH [OF \<open>distinct ys\<close> m] Suc show ?thesis
      by simp
  qed
qed

lemma base64_alphabet_distinct: "distinct base64_alphabet"
  by (simp add: base64_alphabet_def)

lemma base64_alphabet_length: "length base64_alphabet = 64"
  by (simp add: base64_alphabet_def)

lemma base64_alphabet_no_pad: "CHR ''='' \<notin> set base64_alphabet"
  by (simp add: base64_alphabet_def)

lemma char_sextet_char: "n < 64 \<Longrightarrow> char_sextet (sextet_char n) = Some n"
  by (simp add: char_sextet_def sextet_char_def index_of_nth base64_alphabet_distinct
      base64_alphabet_length)

lemma sextet_char_no_pad: "n < 64 \<Longrightarrow> sextet_char n \<noteq> CHR ''=''"
  unfolding sextet_char_def
  by (metis base64_alphabet_length base64_alphabet_no_pad nth_mem)

lemma byte_bound: "unat (a :: 8 word) < 256"
  using unsigned_less [of a] by simp



lemma sextet_bounds:
  fixes x y z :: nat
  assumes "x < 256" "y < 256" "z < 256"
  shows "x div 4 < 64" "x mod 4 * 16 + y div 16 < 64" "y mod 16 * 4 + z div 64 < 64"
    "z mod 64 < 64" "x mod 4 * 16 < 64" "y mod 16 * 4 < 64"
  using assms by linarith+

lemma high_low_div:
  fixes h l :: nat
  shows "l < 16 \<Longrightarrow> (h * 16 + l) div 16 = h" "l < 16 \<Longrightarrow> (h * 16 + l) mod 16 = l"
    "l < 4 \<Longrightarrow> (h * 4 + l) div 4 = h" "l < 4 \<Longrightarrow> (h * 4 + l) mod 4 = l"
  by simp_all

lemma recombine_first: fixes x y :: nat assumes "y < 256"
  shows "x div 4 * 4 + (x mod 4 * 16 + y div 16) div 16 = x"
proof -
  from assms have "y div 16 < 16" by linarith
  then have "(x mod 4 * 16 + y div 16) div 16 = x mod 4" by (rule high_low_div)
  then show ?thesis by simp
qed

lemma recombine_second: fixes x y z :: nat assumes "y < 256" "z < 256"
  shows "(x mod 4 * 16 + y div 16) mod 16 * 16 + (y mod 16 * 4 + z div 64) div 4 = y"
proof -
  from assms have "y div 16 < 16" and "z div 64 < 4" by linarith+
  then have "(x mod 4 * 16 + y div 16) mod 16 = y div 16"
    and "(y mod 16 * 4 + z div 64) div 4 = y mod 16"
    by (simp_all add: high_low_div)
  then show ?thesis by simp
qed

lemma recombine_third: fixes y z :: nat assumes "z < 256"
  shows "(y mod 16 * 4 + z div 64) mod 4 * 64 + z mod 64 = z"
proof -
  from assms have "z div 64 < 4" by linarith
  then have "(y mod 16 * 4 + z div 64) mod 4 = z div 64"
    by (simp add: high_low_div)
  then show ?thesis by simp
qed

lemma recombine_first_padded: fixes x :: nat shows "x div 4 * 4 + (x mod 4 * 16) div 16 = x"
  by simp

lemma recombine_second_padded: fixes x y :: nat assumes "y < 256"
  shows "(x mod 4 * 16 + y div 16) mod 16 * 16 + (y mod 16 * 4) div 4 = y"
proof -
  from assms have "y div 16 < 16" by linarith
  then have "(x mod 4 * 16 + y div 16) mod 16 = y div 16"
    by (simp add: high_low_div)
  then show ?thesis by simp
qed


lemma decode_quad_full:
  "decode_quad (sextet_char (unat a div 4))
     (sextet_char (unat a mod 4 * 16 + unat b div 16))
     (sextet_char (unat b mod 16 * 4 + unat c div 64))
     (sextet_char (unat c mod 64)) = Some [a, b, c]"
proof -
  note bytes = byte_bound [of a] byte_bound [of b] byte_bound [of c]
  note small = sextet_bounds [OF bytes]
  have "of_nat (unat a div 4 * 4 + (unat a mod 4 * 16 + unat b div 16) div 16) = a"
    and "of_nat ((unat a mod 4 * 16 + unat b div 16) mod 16 * 16
          + (unat b mod 16 * 4 + unat c div 64) div 4) = b"
    and "of_nat ((unat b mod 16 * 4 + unat c div 64) mod 4 * 64 + unat c mod 64) = c"
    by (simp_all only: recombine_first [OF bytes(2)] recombine_second [OF bytes(2,3)] recombine_third [OF bytes(3)] of_nat_unat
        unsigned_word_eqI ucast_id)
  then show ?thesis
    unfolding decode_quad_def
    by (simp only: char_sextet_char [OF small(1)] char_sextet_char [OF small(2)]
        char_sextet_char [OF small(3)] char_sextet_char [OF small(4)]
        sextet_char_no_pad [OF small(3)] sextet_char_no_pad [OF small(4)]
        prod.case option.case if_False simp_thms)
qed


lemma decode_quad_two:
  "decode_quad (sextet_char (unat a div 4))
     (sextet_char (unat a mod 4 * 16 + unat b div 16))
     (sextet_char (unat b mod 16 * 4)) (CHR ''='') = Some [a, b]"
proof -
  note bytes = byte_bound [of a] byte_bound [of b] byte_bound [of b]
  note small = sextet_bounds [OF bytes]
  have "of_nat (unat a div 4 * 4 + (unat a mod 4 * 16 + unat b div 16) div 16) = a"
    and "of_nat ((unat a mod 4 * 16 + unat b div 16) mod 16 * 16
          + (unat b mod 16 * 4) div 4) = b"
    by (simp_all only: recombine_first [OF bytes(2)] recombine_second_padded [OF bytes(2)] of_nat_unat ucast_id)
  then show ?thesis
    unfolding decode_quad_def
    by (simp only: char_sextet_char [OF small(1)] char_sextet_char [OF small(2)]
        char_sextet_char [OF small(6)] sextet_char_no_pad [OF small(6)]
        prod.case option.case if_False if_True simp_thms)
qed

lemma decode_quad_one:
  "decode_quad (sextet_char (unat a div 4)) (sextet_char (unat a mod 4 * 16))
     (CHR ''='') (CHR ''='') = Some [a]"
proof -
  note bytes = byte_bound [of a] byte_bound [of a] byte_bound [of a]
  note small = sextet_bounds [OF bytes]
  have "of_nat (unat a div 4 * 4 + (unat a mod 4 * 16) div 16) = a"
    by (simp only: recombine_first_padded of_nat_unat ucast_id)
  then show ?thesis
    unfolding decode_quad_def
    by (simp only: char_sextet_char [OF small(1)] char_sextet_char [OF small(5)]
        prod.case option.case if_True simp_thms)
qed

lemma base64_encode_empty: "base64_encode bs = [] \<longleftrightarrow> bs = []"
  by (cases bs rule: base64_encode.cases) simp_all


lemma base64_roundtrip: "base64_decode (base64_encode bs) = Some bs"
proof (induction bs rule: base64_encode.induct)
  case (1 a b c rest)
  then show ?case
    by (simp add: decode_quad_full base64_encode_empty)
next
  case (2 a b)
  then show ?case by (simp add: decode_quad_two)
next
  case (3 a)
  then show ?case by (simp add: decode_quad_one)
next
  case 4
  then show ?case by simp
qed

lemma data_url_header:
  assumes "CHR '','' \<notin> set t"
  shows "takeWhile (\<lambda>c. c \<noteq> CHR '','') (t @ '';base64,'' @ body) = t @ '';base64''"
proof -
  have "takeWhile (\<lambda>c. c \<noteq> CHR '','') ((t @ '';base64'') @ CHR '','' # body)
          = takeWhile (\<lambda>c. c \<noteq> CHR '','') (t @ '';base64'')"
    by (rule takeWhile_tail) simp
  also have "\<dots> = t @ '';base64''"
    using assms by (auto simp: takeWhile_eq_all_conv)
  finally show ?thesis by simp
qed

lemma data_url_roundtrip:
  assumes "CHR '','' \<notin> set (file_type f)"
  shows "decode_data_url (encode_data_url f) = Some (file_bytes f)"
proof -
  let ?rest = "file_type f @ '';base64,'' @ base64_encode (file_bytes f)"
  have url: "encode_data_url f = ''data:'' @ ?rest"
    by (simp add: encode_data_url_def)
  have scheme: "take 5 (''data:'' @ ?rest) = ''data:''" and rest: "drop 5 (''data:'' @ ?rest) = ?rest"
    by simp_all
  have header: "takeWhile (\<lambda>c. c \<noteq> CHR '','') ?rest = file_type f @ '';base64''"
    using assms by (rule data_url_header)
  have comma: "file_type f @ '';base64'' \<noteq> ?rest"
    by simp
  have marker: "drop (length (file_type f @ '';base64'') - 7) (file_type f @ '';base64'')
      = '';base64''"
    by simp
  have body: "drop (Suc (length (file_type f @ '';base64''))) ?rest
      = base64_encode (file_bytes f)"
    by simp
  show ?thesis
    unfolding url decode_data_url_def Let_def rest header
    by (simp only: scheme comma marker body base64_roundtrip simp_thms if_True)
qed


lemma hello_encoded: "encode_data_url hello_file = hello_url"
  by (simp add: encode_data_url_def hello_file_def hello_url_def sextet_char_def
      base64_alphabet_def)

section \<open>The size guard of the upload\<close>

text \<open>
  C2. A selected file of more than 700,000 bytes is refused at once: the handler only
  shows the error notification (the state is otherwise the one it started from, the
  uploading flag included), the reader is not started, and the whole upload ends there,
  so no write reaches the remote registry. A file of at most 700,000 bytes passes the
  guard: the uploading flag is set, the file goes to the reader, and the upload submits
  its record.
\<close>

theorem oversize_upload_rejected_locally:
  "(file_size f > 700000 \<longrightarrow>
      handleFileUpload (f # rest) s =
        (s\<lparr>toast := Some \<lparr>toast_message = ''File too large! Max 700KB for this demo.'',
                           toast_type = ''error''\<rparr>\<rparr>, [SetTimeout 3000])
      \<and> upload_run appId readAsDataURL addDoc mounted (f # rest) s =
          handleFileUpload (f # rest) s)
   \<and> (file_size f \<le> 700000 \<longrightarrow>
        handleFileUpload (f # rest) s = (s\<lparr>uploading := True\<rparr>, [ReadAsDataURL f])
        \<and> AddDoc (files_collection appId) (upload_record f (readAsDataURL f))
            \<in> set (snd (upload_run appId readAsDataURL addDoc mounted (f # rest) s)))"
  by (auto simp: handleFileUpload_def upload_run_def showToast_def reader_onload_def
      reader_onload_settled_def split: sum.splits)

theorem oversize_upload_rejected_locally_witness:
  "file_size (example_file 700001) > 700000
   \<and> upload_run ''app'' (\<lambda>f. ''data:;base64,'') (\<lambda>w. Inr ()) True
        [example_file 700001] initial_state =
      (initial_state\<lparr>toast := Some \<lparr>toast_message = ''File too large! Max 700KB for this demo.'',
                                      toast_type = ''error''\<rparr>\<rparr>, [SetTimeout 3000])
   \<and> file_size (example_file 700000) \<le> 700000
   \<and> handleFileUpload [example_file 700000] initial_state =
       (initial_state\<lparr>uploading := True\<rparr>, [ReadAsDataURL (example_file 700000)])"
  using oversize_upload_rejected_locally
      [of "example_file 700001" "[]" initial_state "''app''" "\<lambda>f. ''data:;base64,''"
          "\<lambda>w. Inr ()" True]
    oversize_upload_rejected_locally
      [of "example_file 700000" "[]" initial_state "''app''" "\<lambda>f. ''data:;base64,''"
          "\<lambda>w. Inr ()" True]
  by (simp add: example_file_size)

text \<open>
  C10. When the upload handler is invoked with an empty selection it returns at once:
  the state is the one it started from (so the uploading flag is not set and no
  notification is shown) and no call is made, neither to the reader nor to the remote
  registry.
\<close>

theorem upload_without_file_is_noop:
  "handleFileUpload [] s = (s, []) \<and> upload_run appId readAsDataURL addDoc mounted [] s = (s, [])"
  by (simp add: handleFileUpload_def upload_run_def)

section \<open>The admin session\<close>

text \<open>
  C3. The admin session is either Guest or Admin. Submitting the login form when the
  entered PIN equals the fixed secret puts the session in Admin; with any other entry
  the session stays what it was (Guest stays Guest) and the only change is the failure
  notification; logging out always ends in Guest, from Admin and from Guest.
\<close>

theorem admin_session_transitions:
  "(pinInput s = ADMIN_PIN \<longrightarrow> session (fst (handleAdminLogin s)) = Admin)
   \<and> (pinInput s \<noteq> ADMIN_PIN \<longrightarrow>
        session (fst (handleAdminLogin s)) = session s
        \<and> fst (handleAdminLogin s) =
            s\<lparr>toast := Some \<lparr>toast_message = ''Incorrect PIN. Access Denied.'',
                              toast_type = ''error''\<rparr>\<rparr>)
   \<and> session (fst (handleLogout s)) = Guest
   \<and> (session s = Guest \<or> session s = Admin)"
  by (simp add: handleAdminLogin_def handleLogout_def showToast_def after_def session_def)

theorem admin_session_transitions_witness:
  "pinInput (initial_state\<lparr>pinInput := ''432272''\<rparr>) = ADMIN_PIN
   \<and> session (initial_state\<lparr>pinInput := ''432272''\<rparr>) = Guest
   \<and> session (fst (handleAdminLogin (initial_state\<lparr>pinInput := ''432272''\<rparr>))) = Admin
   \<and> pinInput (initial_state\<lparr>pinInput := ''432273''\<rparr>) \<noteq> ADMIN_PIN
   \<and> session (fst (handleAdminLogin (initial_state\<lparr>pinInput := ''432273''\<rparr>))) = Guest
   \<and> session (fst (handleLogout (initial_state\<lparr>isAdmin := True\<rparr>))) = Guest
   \<and> session (fst (handleLogout initial_state)) = Guest"
  using admin_session_transitions [of "initial_state\<lparr>pinInput := ''432272''\<rparr>"]
    admin_session_transitions [of "initial_state\<lparr>pinInput := ''432273''\<rparr>"]
    admin_session_transitions [of "initial_state\<lparr>isAdmin := True\<rparr>"]
    admin_session_transitions [of initial_state]
  by (simp add: ADMIN_PIN_def initial_state_def session_def)

section \<open>The cached sequence\<close>

text \<open>
  C4. Neither the upload nor the delete touches the cached file sequence: every part
  of the two handlers (before and after each \<^verbatim>\<open>await\<close>, and the whole run) leaves
  \<open>files\<close> as it was. Of everything that can run in the component, only the snapshot
  callback of the subscription can change \<open>files\<close>.
\<close>

theorem only_snapshot_replaces_files:
  "files (fst (handleFileUpload selection s)) = files s
   \<and> files (fst (reader_onload appId f result s)) = files s
   \<and> files (fst (reader_onload_settled outcome mounted s)) = files s
   \<and> files (fst (upload_run appId readAsDataURL addDoc mounted selection s)) = files s
   \<and> files (fst (handleDelete doc appId fileId confirmed s)) = files s
   \<and> files (fst (handleDelete_settled outcome' s)) = files s
   \<and> files (fst (delete_run doc appId deleteDoc fileId confirmed s)) = files s
   \<and> (files (fst (dispatch doc appId ev s)) \<noteq> files s \<longrightarrow> (\<exists>docs. ev = SnapshotNext docs))"
  using dispatch_files [of doc appId ev s]
  by (simp add: handleFileUpload_files reader_onload_settled_files upload_run_files
      handleDelete_settled_files delete_run_files reader_onload_def handleDelete_files)

theorem only_snapshot_replaces_files_witness:
  "files (fst (dispatch firestore_doc ''app''
       (SnapshotNext [\<lparr>doc_id = ''d1'', doc_data = Map.empty\<rparr>]) initial_state))
     \<noteq> files initial_state
   \<and> (\<exists>docs. SnapshotNext [\<lparr>doc_id = ''d1'', doc_data = Map.empty\<rparr>] = SnapshotNext docs)
   \<and> files (fst (dispatch firestore_doc ''app'' (FileInputChange [hello_file]) initial_state))
       = files initial_state"
  using only_snapshot_replaces_files
      [where ev = "SnapshotNext [\<lparr>doc_id = ''d1'', doc_data = Map.empty\<rparr>]"
         and s = initial_state and appId = "''app''" and doc = firestore_doc
         and selection = "[hello_file]"]
  by (simp add: onSnapshot_next_def initial_state_def)

text \<open>
  C5. When the error callback of the subscription fires, the cached sequence stays as
  it was: the callback logs the error and shows a notification, and changes nothing
  else in the state.
\<close>

theorem subscription_error_keeps_snapshot:
  "onSnapshot_error err s =
     (s\<lparr>toast := Some \<lparr>toast_message = ''Error loading files'', toast_type = ''error''\<rparr>\<rparr>,
      [ConsoleError ''Error fetching files:'' err, SetTimeout 3000])
   \<and> files (fst (onSnapshot_error err s)) = files s"
  by (simp add: onSnapshot_error_def showToast_def after_def)

section \<open>Delete\<close>

text \<open>
  C6. When the remote delete fails, the handler reports the failure through the error
  notification and does nothing else: the state is otherwise unchanged, so the cached
  sequence, and in it every record with that id, is as before. This holds when the
  promise of \<^verbatim>\<open>deleteDoc\<close> is rejected and when building the document reference
  already throws.
\<close>

theorem failed_delete_only_notifies:
  "handleDelete_settled (Inl err) s =
     (s\<lparr>toast := Some \<lparr>toast_message = ''Could not delete file.'', toast_type = ''error''\<rparr>\<rparr>,
      [SetTimeout 3000])
   \<and> files (fst (handleDelete_settled (Inl err) s)) = files s
   \<and> filter (\<lambda>r. r ''id'' = Some (VString fileId))
         (files (fst (delete_run doc appId deleteDoc fileId confirmed s)))
       = filter (\<lambda>r. r ''id'' = Some (VString fileId)) (files s)
   \<and> (doc (files_collection appId @ [fileId]) = Inr ref \<and> deleteDoc ref = Inl err \<longrightarrow>
        delete_run doc appId deleteDoc fileId True s =
          (s\<lparr>toast := Some \<lparr>toast_message = ''Could not delete file.'',
                             toast_type = ''error''\<rparr>\<rparr>,
           [WindowConfirm ''Are you sure you want to delete this file?'',
            DeleteDoc ref, SetTimeout 3000]))
   \<and> (doc (files_collection appId @ [fileId]) = Inl err \<longrightarrow>
        delete_run doc appId deleteDoc fileId True s =
          (s\<lparr>toast := Some \<lparr>toast_message = ''Could not delete file.'',
                             toast_type = ''error''\<rparr>\<rparr>,
           [WindowConfirm ''Are you sure you want to delete this file?'', SetTimeout 3000]))"
proof -
  have settled: "handleDelete_settled (Inl err) s =
     (s\<lparr>toast := Some \<lparr>toast_message = ''Could not delete file.'', toast_type = ''error''\<rparr>\<rparr>,
      [SetTimeout 3000])"
    by (simp add: handleDelete_settled_def showToast_def)
  have frame: "files (fst (handleDelete_settled (Inl err) s)) = files s"
    by (rule handleDelete_settled_files)
  have kept: "filter (\<lambda>r. r ''id'' = Some (VString fileId))
         (files (fst (delete_run doc appId deleteDoc fileId confirmed s)))
       = filter (\<lambda>r. r ''id'' = Some (VString fileId)) (files s)"
    by (simp only: delete_run_files)
  have rejected: "doc (files_collection appId @ [fileId]) = Inr ref \<and> deleteDoc ref = Inl err \<longrightarrow>
        delete_run doc appId deleteDoc fileId True s =
          (s\<lparr>toast := Some \<lparr>toast_message = ''Could not delete file.'',
                             toast_type = ''error''\<rparr>\<rparr>,
           [WindowConfirm ''Are you sure you want to delete this file?'',
            DeleteDoc ref, SetTimeout 3000])"
    by (simp add: delete_run_def handleDelete_def after_def handleDelete_settled_def
        showToast_def)
  have thrown: "doc (files_collection appId @ [fileId]) = Inl err \<longrightarrow>
        delete_run doc appId deleteDoc fileId True s =
          (s\<lparr>toast := Some \<lparr>toast_message = ''Could not delete file.'',
                             toast_type = ''error''\<rparr>\<rparr>,
           [WindowConfirm ''Are you sure you want to delete this file?'', SetTimeout 3000])"
    by (simp add: delete_run_def handleDelete_def after_def showToast_def)
  show ?thesis
    by (rule conjI [OF settled conjI [OF frame conjI [OF kept conjI [OF rejected thrown]]]])
qed

theorem failed_delete_only_notifies_witness:
  "firestore_doc (files_collection ''app'' @ [''d1''])
     = Inr [''artifacts'', ''app'', ''public'', ''data'', ''files'', ''d1'']
   \<and> delete_run firestore_doc ''app'' (\<lambda>ref. Inl ''unavailable'') ''d1'' True
        (initial_state\<lparr>files := [[''id'' \<mapsto> VString ''d1'']]\<rparr>) =
       (initial_state\<lparr>files := [[''id'' \<mapsto> VString ''d1'']],
                      toast := Some \<lparr>toast_message = ''Could not delete file.'',
                                     toast_type = ''error''\<rparr>\<rparr>,
        [WindowConfirm ''Are you sure you want to delete this file?'',
         DeleteDoc [''artifacts'', ''app'', ''public'', ''data'', ''files'', ''d1''],
         SetTimeout 3000])
   \<and> firestore_doc (files_collection ''app'' @ [''a/b'']) = Inl ''invalid-argument''
   \<and> delete_run firestore_doc ''app'' (\<lambda>ref. Inr ()) ''a/b'' True
        (initial_state\<lparr>files := [[''id'' \<mapsto> VString ''a/b'']]\<rparr>) =
       (initial_state\<lparr>files := [[''id'' \<mapsto> VString ''a/b'']],
                      toast := Some \<lparr>toast_message = ''Could not delete file.'',
                                     toast_type = ''error''\<rparr>\<rparr>,
        [WindowConfirm ''Are you sure you want to delete this file?'', SetTimeout 3000])"
proof -
  have valid: "firestore_doc (files_collection ''app'' @ [''d1''])
     = Inr [''artifacts'', ''app'', ''public'', ''data'', ''files'', ''d1'']"
    by (simp add: firestore_doc_def files_collection_def)
  have invalid: "firestore_doc (files_collection ''app'' @ [''a/b'']) = Inl ''invalid-argument''"
    by (simp add: firestore_doc_def files_collection_def)
  show ?thesis
    using failed_delete_only_notifies
        [where doc = firestore_doc and appId = "''app''" and fileId = "''d1''"
           and ref = "[''artifacts'', ''app'', ''public'', ''data'', ''files'', ''d1'']"
           and deleteDoc = "\<lambda>ref. Inl ''unavailable''" and err = "''unavailable''"
           and s = "initial_state\<lparr>files := [[''id'' \<mapsto> VString ''d1'']]\<rparr>"]
      failed_delete_only_notifies
        [where doc = firestore_doc and appId = "''app''" and fileId = "''a/b''"
           and deleteDoc = "\<lambda>ref. Inr ()" and err = "''invalid-argument''"
           and s = "initial_state\<lparr>files := [[''id'' \<mapsto> VString ''a/b'']]\<rparr>"]
      valid invalid
    by simp
qed

text \<open>
  C7, as amended. The delete handler asks for confirmation first
  (\<^verbatim>\<open>window.confirm\<close> is its first call). When the user declines, nothing is submitted
  and the state is as it was. When the user confirms, the handler builds the document
  reference for the id: if that throws (an id that names no document, such as an empty
  one), nothing is submitted and the error notification is shown; otherwise the delete
  is submitted for that reference. Nothing else is checked: the calls do not depend on
  the state, so not on whether the id is in the cached sequence.
\<close>

theorem delete_submitted_after_confirm:
  "snd (handleDelete doc appId fileId confirmed s) =
     WindowConfirm ''Are you sure you want to delete this file?'' #
     (if \<not> confirmed then []
      else case doc (files_collection appId @ [fileId]) of
             Inl err \<Rightarrow> [SetTimeout 3000]
           | Inr ref \<Rightarrow> [DeleteDoc ref])
   \<and> (DeleteDoc ref' \<in> set (snd (handleDelete doc appId fileId confirmed s)))
       = (confirmed \<and> doc (files_collection appId @ [fileId]) = Inr ref')
   \<and> fst (handleDelete doc appId fileId confirmed s) =
       (if confirmed \<and> isl (doc (files_collection appId @ [fileId]))
        then s\<lparr>toast := Some \<lparr>toast_message = ''Could not delete file.'',
                               toast_type = ''error''\<rparr>\<rparr>
        else s)
   \<and> snd (handleDelete doc appId fileId confirmed s)
       = snd (handleDelete doc appId fileId confirmed s')"
proof -
  have calls: "snd (handleDelete doc appId fileId confirmed s) =
     WindowConfirm ''Are you sure you want to delete this file?'' #
     (if \<not> confirmed then []
      else case doc (files_collection appId @ [fileId]) of
             Inl err \<Rightarrow> [SetTimeout 3000]
           | Inr ref \<Rightarrow> [DeleteDoc ref])" for s
    by (rule handleDelete_effects)
  have submitted: "(DeleteDoc ref' \<in> set (snd (handleDelete doc appId fileId confirmed s)))
       = (confirmed \<and> doc (files_collection appId @ [fileId]) = Inr ref')"
    by (cases "doc (files_collection appId @ [fileId])") (auto simp: calls)
  have state: "fst (handleDelete doc appId fileId confirmed s) =
       (if confirmed \<and> isl (doc (files_collection appId @ [fileId]))
        then s\<lparr>toast := Some \<lparr>toast_message = ''Could not delete file.'',
                               toast_type = ''error''\<rparr>\<rparr>
        else s)"
    by (cases "doc (files_collection appId @ [fileId])")
      (simp_all add: handleDelete_def after_def showToast_def)
  have same: "snd (handleDelete doc appId fileId confirmed s)
       = snd (handleDelete doc appId fileId confirmed s')"
    by (simp only: calls)
  show ?thesis
    by (rule conjI [OF calls conjI [OF submitted conjI [OF state same]]])
qed

text \<open>
  C7, as stated, fails: when the user declines the confirmation, the handler submits
  no delete for the id; and for the empty id nothing is submitted even when the user
  confirms.
\<close>

theorem delete_declined_counterexample:
  "handleDelete firestore_doc ''app'' ''f1'' False initial_state =
     (initial_state, [WindowConfirm ''Are you sure you want to delete this file?''])
   \<and> snd (handleDelete firestore_doc ''app'' [] True initial_state) =
       [WindowConfirm ''Are you sure you want to delete this file?'', SetTimeout 3000]"
  by (simp add: handleDelete_def after_def showToast_def firestore_doc_def files_collection_def)

section \<open>The codec\<close>

text \<open>
  C1. For every byte sequence, the empty one included, decoding the encoded text gives
  the bytes back: for Base64 alone, and for the data URL of any file whose type has no
  comma (a data address is split at its first comma, and a MIME type has none). The
  upload stores the encoded text unchanged and the download hands it on unchanged, so
  the bytes behind a record created from an upload are the file's bytes.
\<close>

theorem decode_encode_identity:
  "base64_decode (base64_encode b) = Some b
   \<and> (CHR '','' \<notin> set (file_type f) \<longrightarrow>
        decode_data_url (encode_data_url f) = Some (file_bytes f)
        \<and> decoded_payload
              (file_of_doc (created_doc newId now (upload_record f (encode_data_url f))))
            = Some (file_bytes f))"
  by (simp add: base64_roundtrip data_url_roundtrip decoded_payload_created)

theorem decode_encode_identity_witness:
  "CHR '','' \<notin> set (file_type hello_file)
   \<and> encode_data_url hello_file = ''data:text/plain;base64,aGVsbG8=''
   \<and> decode_data_url (encode_data_url hello_file) = Some [104, 101, 108, 108, 111]
   \<and> CHR '','' \<notin> set (file_type (example_file 0))
   \<and> encode_data_url (example_file 0) = ''data:application/octet-stream;base64,''
   \<and> decode_data_url (encode_data_url (example_file 0)) = Some []"
proof -
  have hello: "CHR '','' \<notin> set (file_type hello_file)"
    and bytes: "file_bytes hello_file = [104, 101, 108, 108, 111]"
    by (simp_all add: hello_file_def)
  have none: "CHR '','' \<notin> set (file_type (example_file 0))"
    and no_bytes: "file_bytes (example_file 0) = []"
    and none_text: "encode_data_url (example_file 0) = ''data:application/octet-stream;base64,''"
    by (simp_all add: example_file_def encode_data_url_def)
  from decode_encode_identity [of "[]" hello_file "''doc1''" 2] hello
  have first: "decode_data_url (encode_data_url hello_file) = Some (file_bytes hello_file)"
    by blast
  from decode_encode_identity [of "[]" "example_file 0" "''doc1''" 2] none
  have second: "decode_data_url (encode_data_url (example_file 0))
      = Some (file_bytes (example_file 0))"
    by blast
  have encoded: "encode_data_url hello_file = ''data:text/plain;base64,aGVsbG8=''"
    using hello_encoded by (simp add: hello_url_def)
  show ?thesis
    using hello none first [unfolded bytes] second [unfolded no_bytes] encoded none_text
    by (intro conjI)
qed

section \<open>Upload, registry and snapshot\<close>



section \<open>Order of the cached sequence\<close>

text \<open>
  C9. The snapshot callback stores the delivered documents position for position, with
  their timestamps. The subscription asks for the collection ordered by
  \<^verbatim>\<open>createdAt\<close>, descending; in the registry as the spec describes it every snapshot
  delivered to it is in that order, and so is the cached sequence. When the uploaded
  record gets a timestamp later than all the existing ones, it is the first of the next
  cached sequence and the others follow as they were.
\<close>

theorem snapshot_order_mirrored:
  "files (fst (onSnapshot_next docs s)) = map file_of_doc docs
   \<and> map createdAt (files (fst (onSnapshot_next docs s)))
       = map (field_timestamp ''createdAt'') docs
   \<and> (sub \<in> set (subscribe appId s') \<longrightarrow>
        sub = OnSnapshot (files_collection appId) ''createdAt'' ''desc''
        \<and> descending (field_timestamp ''createdAt'') (deliver sub reg)
        \<and> descending createdAt (files (fst (onSnapshot_next (deliver sub reg) s)))
        \<and> (list_all (\<lambda>d. field_timestamp ''createdAt'' d < Some now)
              (reg (files_collection appId)) \<longrightarrow>
            files (fst (onSnapshot_next
                (deliver sub
                   (registry_apply newId now
                      (AddDoc (files_collection appId) (upload_record f result)) reg)) s))
              = file_of_doc (created_doc newId now (upload_record f result))
                # files (fst (onSnapshot_next (deliver sub reg) s))))"
proof -
  have mirror: "files (fst (onSnapshot_next xs s)) = map file_of_doc xs" for xs
    by (simp add: onSnapshot_next_def)
  have stamps: "map createdAt (map file_of_doc docs) = map (field_timestamp ''createdAt'') docs"
    by (simp add: createdAt_file_of_doc)
  {
    assume "sub \<in> set (subscribe appId s')"
    then have sub: "sub = OnSnapshot (files_collection appId) ''createdAt'' ''desc''"
      by (rule subscribe_query)
    have sorted_docs: "descending (field_timestamp ''createdAt'') (deliver sub reg)"
      unfolding sub deliver_desc by (rule descending_rev_sort_key)
    then have sorted_files:
      "descending createdAt (files (fst (onSnapshot_next (deliver sub reg) s)))"
      by (simp add: mirror descending_file_of_doc)
    {
      assume "list_all (\<lambda>d. field_timestamp ''createdAt'' d < Some now)
                (reg (files_collection appId))"
      then have "\<forall>d \<in> set (reg (files_collection appId)).
          field_timestamp ''createdAt'' d
            < field_timestamp ''createdAt'' (created_doc newId now (upload_record f result))"
        by (simp add: list_all_iff field_timestamp_created_upload)
      then have "deliver sub
                   (registry_apply newId now
                      (AddDoc (files_collection appId) (upload_record f result)) reg)
                 = created_doc newId now (upload_record f result) # deliver sub reg"
        unfolding sub by (rule deliver_after_latest_create)
      then have "files (fst (onSnapshot_next
                (deliver sub
                   (registry_apply newId now
                      (AddDoc (files_collection appId) (upload_record f result)) reg)) s))
              = file_of_doc (created_doc newId now (upload_record f result))
                # files (fst (onSnapshot_next (deliver sub reg) s))"
        by (simp add: mirror)
    }
    note first = this
    from sub sorted_docs sorted_files first
    have "sub = OnSnapshot (files_collection appId) ''createdAt'' ''desc''
        \<and> descending (field_timestamp ''createdAt'') (deliver sub reg)
        \<and> descending createdAt (files (fst (onSnapshot_next (deliver sub reg) s)))
        \<and> (list_all (\<lambda>d. field_timestamp ''createdAt'' d < Some now)
              (reg (files_collection appId)) \<longrightarrow>
            files (fst (onSnapshot_next
                (deliver sub
                   (registry_apply newId now
                      (AddDoc (files_collection appId) (upload_record f result)) reg)) s))
              = file_of_doc (created_doc newId now (upload_record f result))
                # files (fst (onSnapshot_next (deliver sub reg) s)))"
      by blast
  }
  then have subscribed:
    "sub \<in> set (subscribe appId s') \<longrightarrow>
        sub = OnSnapshot (files_collection appId) ''createdAt'' ''desc''
        \<and> descending (field_timestamp ''createdAt'') (deliver sub reg)
        \<and> descending createdAt (files (fst (onSnapshot_next (deliver sub reg) s)))
        \<and> (list_all (\<lambda>d. field_timestamp ''createdAt'' d < Some now)
              (reg (files_collection appId)) \<longrightarrow>
            files (fst (onSnapshot_next
                (deliver sub
                   (registry_apply newId now
                      (AddDoc (files_collection appId) (upload_record f result)) reg)) s))
              = file_of_doc (created_doc newId now (upload_record f result))
                # files (fst (onSnapshot_next (deliver sub reg) s)))"
    by (rule impI)
  have stamps': "map createdAt (files (fst (onSnapshot_next docs s)))
       = map (field_timestamp ''createdAt'') docs"
    by (simp only: mirror stamps)
  show ?thesis
    by (rule conjI [OF mirror conjI [OF stamps' subscribed]])
qed



theorem snapshot_order_mirrored_witness:
  "OnSnapshot (files_collection ''app'') ''createdAt'' ''desc''
     \<in> set (subscribe ''app'' (initial_state\<lparr>user := Some ''u1''\<rparr>))
   \<and> list_all (\<lambda>d. field_timestamp ''createdAt'' d < Some 2)
        (example_registry ''app'' (files_collection ''app''))
   \<and> map createdAt
        (files (fst (onSnapshot_next
           (deliver (OnSnapshot (files_collection ''app'') ''createdAt'' ''desc'')
              (registry_apply ''doc1'' 2
                 (AddDoc (files_collection ''app'') (upload_record hello_file hello_url))
                 (example_registry ''app'')))
           initial_state)))
       = [Some 2, Some 1]
   \<and> map (\<lambda>r. r ''id'')
        (files (fst (onSnapshot_next
           (deliver (OnSnapshot (files_collection ''app'') ''createdAt'' ''desc'')
              (registry_apply ''doc1'' 2
                 (AddDoc (files_collection ''app'') (upload_record hello_file hello_url))
                 (example_registry ''app'')))
           initial_state)))
       = [Some (VString ''doc1''), Some (VString ''doc0'')]"
proof -
  have subscribed: "OnSnapshot (files_collection ''app'') ''createdAt'' ''desc''
     \<in> set (subscribe ''app'' (initial_state\<lparr>user := Some ''u1''\<rparr>))"
    by (simp add: subscribe_signed_in)
  have earlier: "list_all (\<lambda>d. field_timestamp ''createdAt'' d < Some 2)
        (example_registry ''app'' (files_collection ''app''))"
    by (simp add: example_registry_files field_timestamp_created_upload)
  have before: "deliver (OnSnapshot (files_collection ''app'') ''createdAt'' ''desc'')
      (example_registry ''app'')
     = [created_doc ''doc0'' 1 (upload_record (example_file 3) ''data:;base64,AAAA'')]"
    by (simp add: deliver_desc example_registry_files)
  from snapshot_order_mirrored
      [of "[]" initial_state "OnSnapshot (files_collection ''app'') ''createdAt'' ''desc''"
          "''app''" "initial_state\<lparr>user := Some ''u1''\<rparr>" "example_registry ''app''"
          2 "''doc1''" hello_file hello_url]
    subscribed earlier
  have "files (fst (onSnapshot_next
           (deliver (OnSnapshot (files_collection ''app'') ''createdAt'' ''desc'')
              (registry_apply ''doc1'' 2
                 (AddDoc (files_collection ''app'') (upload_record hello_file hello_url))
                 (example_registry ''app'')))
           initial_state))
        = file_of_doc (created_doc ''doc1'' 2 (upload_record hello_file hello_url))
          # files (fst (onSnapshot_next
              (deliver (OnSnapshot (files_collection ''app'') ''createdAt'' ''desc'')
                 (example_registry ''app'')) initial_state))"
    by blast
  then show ?thesis
    using subscribed earlier
    by (simp add: before onSnapshot_next_def createdAt_file_of_doc
        field_timestamp_created_upload created_upload_fields)
qed


end
